theory Spec2Isabelle
  imports Complex_Main "HOL-Library.Sublist"
begin

section \<open>Errors raised by the data pipeline\<close>

text \<open>
  Every exception that \<^verbatim>\<open>dataset.py\<close> or the library calls it makes can raise is a value of
  this type; a function that can raise returns \<open>error + 'a\<close> with \<open>Inl\<close> for the exception.
\<close>

datatype error =
    KeyError string
  | ValueError string
  | RuntimeError string
  | ZeroDivisionError
  | AssertionError string
  | IndexError string
  | UnboundLocalError string

text \<open>
  \<^verbatim>\<open>repr\<close> of a string, with characters read as code points below 256. The quote is the
  apostrophe unless the string has an apostrophe and no double quote. The quote and the
  backslash are escaped with a backslash, tab, newline and carriage return are written
  \<^verbatim>\<open>\t\<close>, \<^verbatim>\<open>\n\<close>, \<^verbatim>\<open>\r\<close>, every other character that is not printable is written \<^verbatim>\<open>\xhh\<close>.
\<close>

definition hex_digit :: "nat \<Rightarrow> char" where
  "hex_digit n = ''0123456789abcdef'' ! (n mod 16)"

definition printable :: "char \<Rightarrow> bool" where
  "printable c \<longleftrightarrow>
     (let n = (of_char c :: nat) in (32 \<le> n \<and> n < 127) \<or> (161 \<le> n \<and> n \<noteq> 173))"

definition repr_char :: "char \<Rightarrow> char \<Rightarrow> string" where
  "repr_char quote c =
     (if c = quote \<or> c = CHR 0x5C then [CHR 0x5C, c]
      else if c = CHR 0x09 then [CHR 0x5C, CHR ''t'']
      else if c = CHR 0x0A then [CHR 0x5C, CHR ''n'']
      else if c = CHR 0x0D then [CHR 0x5C, CHR ''r'']
      else if printable c then [c]
      else [CHR 0x5C, CHR ''x'', hex_digit (of_char c div 16), hex_digit (of_char c mod 16)])"

definition py_repr :: "string \<Rightarrow> string" where
  "py_repr s =
     (let quote = (if CHR 0x27 \<in> set s \<and> CHR 0x22 \<notin> set s then CHR 0x22 else CHR 0x27)
      in [quote] @ concat (map (repr_char quote) s) @ [quote])"

text \<open>
  The characters that \<^verbatim>\<open>repr\<close> leaves as they are between apostrophes: printable ASCII other
  than the apostrophe and the backslash.
\<close>

definition plain_char :: "char \<Rightarrow> bool" where
  "plain_char c \<longleftrightarrow> (let n = (of_char c :: nat) in 32 \<le> n \<and> n < 127 \<and> n \<noteq> 39 \<and> n \<noteq> 92)"

section \<open>Tensors and targets\<close>

text \<open>
  Floating-point numbers are idealised as reals, and in this part sums and products are
  exact; the steps of \<^verbatim>\<open>MixUP\<close> are given once more with the rounding of every operation
  further below. A batch is a rank-4 tensor with its shape \<open>(B, C, H, W)\<close> and its elements
  as nested lists (sample, channel, row, column). A target is either a rank-1 integer
  tensor (hard labels) or a rank-2 floating tensor (soft labels, one row per sample).
\<close>

record tensor4 =
  shape :: "nat \<times> nat \<times> nat \<times> nat"
  elems :: "real list list list list"

datatype target = Hard "int list" | Soft "real list list"

text \<open>\<^verbatim>\<open>t.roll(1, 0)\<close>: entry \<open>i\<close> of the result is entry \<open>i - 1\<close> of \<open>t\<close>, cyclically.\<close>

definition roll :: "'a list \<Rightarrow> 'a list" where
  "roll xs = (case xs of [] \<Rightarrow> [] | _ # _ \<Rightarrow> last xs # butlast xs)"

definition roll4 :: "tensor4 \<Rightarrow> tensor4" where
  "roll4 t = t\<lparr>elems := roll (elems t)\<rparr>"

text \<open>The element-wise expression \<^verbatim>\<open>x * (1-ratio) + x_roll * ratio\<close>, rank by rank.\<close>

definition mix :: "real \<Rightarrow> real \<Rightarrow> real \<Rightarrow> real" where
  "mix ratio x y = x * (1 - ratio) + y * ratio"

definition mix1 :: "real \<Rightarrow> real list \<Rightarrow> real list \<Rightarrow> real list" where
  "mix1 ratio xs ys = map2 (mix ratio) xs ys"

definition mix2 :: "real \<Rightarrow> real list list \<Rightarrow> real list list \<Rightarrow> real list list" where
  "mix2 ratio xs ys = map2 (mix1 ratio) xs ys"

definition mix3 :: "real \<Rightarrow> real list list list \<Rightarrow> real list list list \<Rightarrow> real list list list" where
  "mix3 ratio xs ys = map2 (mix2 ratio) xs ys"

definition mix4 :: "real \<Rightarrow> tensor4 \<Rightarrow> tensor4 \<Rightarrow> tensor4" where
  "mix4 ratio t t' = t\<lparr>elems := map2 (mix3 ratio) (elems t) (elems t')\<rparr>"

text \<open>
  \<^verbatim>\<open>F.one_hot(target, num_classes=nclass)\<close>: an empty tensor needs a positive class count;
  otherwise every class value must be non-negative and smaller than the class count.
\<close>

definition one_hot_row :: "nat \<Rightarrow> int \<Rightarrow> real list" where
  "one_hot_row n l = map (\<lambda>k. if int k = l then 1 else 0) [0..<n]"

definition one_hot :: "nat \<Rightarrow> int list \<Rightarrow> error + real list list" where
  "one_hot n ls =
     (if ls = [] then
        (if n = 0 then Inl (RuntimeError ''Can not infer total number of classes from empty tensor.'')
         else Inr [])
      else if \<not> list_all (\<lambda>l. 0 \<le> l) ls then Inl (RuntimeError ''Class values must be non-negative.'')
      else if \<not> list_all (\<lambda>l. l < int n) ls then
        Inl (RuntimeError ''Class values must be smaller than num_classes.'')
      else Inr (map (one_hot_row n) ls))"

text \<open>Lines 98-99 and 123-124: a rank-1 target is promoted to one-hot rows.\<close>

definition promote :: "nat \<Rightarrow> target \<Rightarrow> error + real list list" where
  "promote n t = (case t of Hard ls \<Rightarrow> one_hot n ls | Soft T \<Rightarrow> Inr T)"

section \<open>The mixing operators\<close>

text \<open>
  \<^verbatim>\<open>MixUP\<close> and \<^verbatim>\<open>CutMix\<close> have the same three attributes, set by \<^verbatim>\<open>__init__\<close> with the
  defaults \<^verbatim>\<open>p=0.5, alpha=1.0, nclass=1000\<close>. An omitted keyword argument is \<open>None\<close>.
\<close>

record policy =
  p :: real
  alpha :: real
  nclass :: nat

datatype mix_op = MixUP policy | CutMix policy

definition policy_init :: "real option \<Rightarrow> real option \<Rightarrow> nat option \<Rightarrow> policy" where
  "policy_init p_arg alpha_arg nclass_arg =
     \<lparr>p = (case p_arg of None \<Rightarrow> 0.5 | Some v \<Rightarrow> v),
      alpha = (case alpha_arg of None \<Rightarrow> 1.0 | Some v \<Rightarrow> v),
      nclass = (case nclass_arg of None \<Rightarrow> 1000 | Some v \<Rightarrow> v)\<rparr>"

definition MixUP_init :: "real option \<Rightarrow> real option \<Rightarrow> nat option \<Rightarrow> mix_op" where
  "MixUP_init p_arg alpha_arg nclass_arg = MixUP (policy_init p_arg alpha_arg nclass_arg)"

definition CutMix_init :: "real option \<Rightarrow> real option \<Rightarrow> nat option \<Rightarrow> mix_op" where
  "CutMix_init p_arg alpha_arg nclass_arg = CutMix (policy_init p_arg alpha_arg nclass_arg)"

text \<open>
  The random draws of one call are arguments: \<open>u_skip\<close> is the value of \<^verbatim>\<open>random.random()\<close>
  compared with \<open>p\<close>, \<open>dir0\<close> the first component of the Dirichlet sample, \<open>u_row\<close> and
  \<open>u_col\<close> the two further values of \<^verbatim>\<open>random.random()\<close> that \<^verbatim>\<open>CutMix\<close> takes.
\<close>

record draws =
  u_skip :: real
  dir0 :: real
  u_row :: real
  u_col :: real

text \<open>Lines 98-109 of \<^verbatim>\<open>MixUP.__call__\<close>: the mixing steps after the skip test.\<close>

definition MixUP_steps :: "policy \<Rightarrow> draws \<Rightarrow> tensor4 \<Rightarrow> target \<Rightarrow> error + tensor4 \<times> target" where
  "MixUP_steps self dr batch tgt =
     (case promote (nclass self) tgt of
        Inl e \<Rightarrow> Inl e
      | Inr T \<Rightarrow>
          let ratio = 1 - dir0 dr;
              batch_roll = roll4 batch;
              target_roll = roll T
          in Inr (mix4 ratio batch batch_roll, Soft (mix2 ratio T target_roll)))"

definition MixUP_call :: "policy \<Rightarrow> draws \<Rightarrow> tensor4 \<Rightarrow> target \<Rightarrow> error + tensor4 \<times> target" where
  "MixUP_call self dr batch tgt =
     (if p self > u_skip dr then Inr (batch, tgt) else MixUP_steps self dr batch tgt)"

text \<open>\<^verbatim>\<open>int(x)\<close> on a float truncates towards zero.\<close>

definition py_int :: "real \<Rightarrow> int" where
  "py_int x = (if 0 \<le> x then \<lfloor>x\<rfloor> else \<lceil>x\<rceil>)"

text \<open>
  Lines 132-140 of \<^verbatim>\<open>CutMix.__call__\<close>: the bounds
  \<open>(start_x, end_x, start_y, end_y)\<close> of the swapped region.
\<close>

definition CutMix_box :: "real \<Rightarrow> nat \<Rightarrow> nat \<Rightarrow> draws \<Rightarrow> int \<times> int \<times> int \<times> int" where
  "CutMix_box ratio H W dr =
     (let height_half = py_int (0.5 * sqrt ratio * real H);
          width_half = py_int (0.5 * sqrt ratio * real W);
          r = py_int (u_row dr * real H);
          c = py_int (u_col dr * real W);
          start_x = max (r - height_half) 0;
          end_x = min (r + height_half) (int H);
          start_y = max (r - width_half) 0;
          end_y = min (r + width_half) (int W)
      in (start_x, end_x, start_y, end_y))"

text \<open>Line 142: the ratio recomputed from the box; the division raises when \<open>H * W = 0\<close>.\<close>

definition CutMix_ratio :: "int \<times> int \<times> int \<times> int \<Rightarrow> nat \<Rightarrow> nat \<Rightarrow> error + real" where
  "CutMix_ratio box H W =
     (case box of (start_x, end_x, start_y, end_y) \<Rightarrow>
        if H * W = 0 then Inl ZeroDivisionError
        else Inr (1 - real_of_int ((end_x - start_x) * (end_y - start_y)) / real (H * W)))"

text \<open>
  Line 144: the slice assignment. With non-negative bounds the slice \<^verbatim>\<open>s:e\<close> selects the
  indices \<open>i\<close> with \<open>s \<le> i < e\<close> that exist; it is empty when \<open>e \<le> s\<close>.
\<close>

definition in_slice :: "int \<Rightarrow> int \<Rightarrow> nat \<Rightarrow> bool" where
  "in_slice s e i \<longleftrightarrow> s \<le> int i \<and> int i < e"

definition paste_row :: "int \<Rightarrow> int \<Rightarrow> real list \<Rightarrow> real list \<Rightarrow> real list" where
  "paste_row s e row row' =
     map (\<lambda>(j, x, y). if in_slice s e j then y else x) (zip [0..<length row] (zip row row'))"

definition paste_image ::
  "int \<times> int \<times> int \<times> int \<Rightarrow> real list list \<Rightarrow> real list list \<Rightarrow> real list list" where
  "paste_image box img img' =
     (case box of (start_x, end_x, start_y, end_y) \<Rightarrow>
        map (\<lambda>(i, row, row'). if in_slice start_x end_x i then paste_row start_y end_y row row' else row)
          (zip [0..<length img] (zip img img')))"

definition paste4 :: "int \<times> int \<times> int \<times> int \<Rightarrow> tensor4 \<Rightarrow> tensor4 \<Rightarrow> tensor4" where
  "paste4 box t t' = t\<lparr>elems := map2 (map2 (paste_image box)) (elems t) (elems t')\<rparr>"

text \<open>Lines 123-147 of \<^verbatim>\<open>CutMix.__call__\<close>: the mixing steps after the skip test.\<close>

definition CutMix_steps :: "policy \<Rightarrow> draws \<Rightarrow> tensor4 \<Rightarrow> target \<Rightarrow> error + tensor4 \<times> target" where
  "CutMix_steps self dr batch tgt =
     (case promote (nclass self) tgt of
        Inl e \<Rightarrow> Inl e
      | Inr T \<Rightarrow>
          (case shape batch of (B, C, H, W) \<Rightarrow>
             let ratio = 1 - dir0 dr;
                 batch_roll = roll4 batch;
                 target_roll = roll T
             in if ratio < 0 then Inl (ValueError ''math domain error'')
                else let box = CutMix_box ratio H W dr
                     in (case CutMix_ratio box H W of
                           Inl e \<Rightarrow> Inl e
                         | Inr ratio' \<Rightarrow>
                             Inr (paste4 box batch batch_roll, Soft (mix2 ratio' T target_roll)))))"

definition CutMix_call :: "policy \<Rightarrow> draws \<Rightarrow> tensor4 \<Rightarrow> target \<Rightarrow> error + tensor4 \<times> target" where
  "CutMix_call self dr batch tgt =
     (if p self > u_skip dr then Inr (batch, tgt) else CutMix_steps self dr batch tgt)"

text \<open>Applying whichever operator was constructed.\<close>

fun mix_op_call :: "mix_op \<Rightarrow> draws \<Rightarrow> tensor4 \<Rightarrow> target \<Rightarrow> error + tensor4 \<times> target" where
  "mix_op_call (MixUP self) dr batch tgt = MixUP_call self dr batch tgt"
| "mix_op_call (CutMix self) dr batch tgt = CutMix_call self dr batch tgt"

fun policy_of :: "mix_op \<Rightarrow> policy" where
  "policy_of (MixUP self) = self"
| "policy_of (CutMix self) = self"

section \<open>Transform pipelines\<close>

text \<open>
  The torchvision transforms are opaque stages; a transform object is the list of stages
  handed to \<^verbatim>\<open>transforms.Compose\<close>.
\<close>

datatype InterpolationMode = NEAREST | NEAREST_EXACT | BILINEAR | BICUBIC | BOX | HAMMING | LANCZOS

text \<open>The enum constructor \<^verbatim>\<open>InterpolationMode(value)\<close> raises on a value that is no member.\<close>

definition InterpolationMode_of :: "string \<Rightarrow> error + InterpolationMode" where
  "InterpolationMode_of s =
     (if s = ''nearest'' then Inr NEAREST
      else if s = ''nearest-exact'' then Inr NEAREST_EXACT
      else if s = ''bilinear'' then Inr BILINEAR
      else if s = ''bicubic'' then Inr BICUBIC
      else if s = ''box'' then Inr BOX
      else if s = ''hamming'' then Inr HAMMING
      else if s = ''lanczos'' then Inr LANCZOS
      else Inl (ValueError (py_repr s @ '' is not a valid InterpolationMode'')))"

datatype size_arg = SizeInt int | SizePair int int

datatype stage =
    RandomHorizontalFlip real
  | RandAugment InterpolationMode
  | TrivialAugmentWide InterpolationMode
  | AutoAugment string InterpolationMode
  | RandomResizedCrop size_arg "real \<times> real" "real \<times> real" InterpolationMode
  | Resize size_arg InterpolationMode
  | RandomCrop size_arg int
  | CenterCrop size_arg
  | ToTensor
  | Normalize "real list" "real list"
  | RandomErasing real

type_synonym transform = "stage list"

text \<open>
  \<^verbatim>\<open>assert e\<close> raises \<^verbatim>\<open>AssertionError\<close> exactly when \<open>e\<close> is falsy; a string is falsy exactly
  when it is empty.
\<close>

definition assert_str :: "string \<Rightarrow> error + unit" where
  "assert_str s = (if s \<noteq> [] then Inr () else Inl (AssertionError []))"

text \<open>Lines 32-39: the automatic-augmentation stage, chosen by prefix.\<close>

definition auto_aug_stages :: "string option \<Rightarrow> InterpolationMode \<Rightarrow> stage list" where
  "auto_aug_stages auto_aug interpolation =
     (case auto_aug of
        None \<Rightarrow> []
      | Some a \<Rightarrow>
          if a = [] then []
          else if prefix ''ra'' a then [RandAugment interpolation]
          else if prefix ''ta_wide'' a then [TrivialAugmentWide interpolation]
          else if prefix ''aa'' a then [AutoAugment ''imagenet'' interpolation]
          else [])"

text \<open>Lines 41-47: the resize stage; the last branch is the \<^verbatim>\<open>assert\<close> on an f-string.\<close>

definition resize_stages ::
  "size_arg \<Rightarrow> string \<Rightarrow> int \<Rightarrow> real \<times> real \<Rightarrow> real \<times> real \<Rightarrow> InterpolationMode \<Rightarrow> error + stage list" where
  "resize_stages resize resize_mode pad scale ratio interpolation =
     (if resize_mode = ''RandomResizedCrop'' then
        Inr [RandomResizedCrop resize scale ratio interpolation]
      else if resize_mode = ''ResizeRandomCrop'' then
        Inr [Resize resize interpolation, RandomCrop resize pad]
      else
        (case assert_str (resize_mode @ '' should be RandomResizedCrop and ResizeRandomCrop'') of
           Inl e \<Rightarrow> Inl e
         | Inr _ \<Rightarrow> Inr []))"

definition TrainTransform_init ::
  "size_arg \<Rightarrow> string \<Rightarrow> int \<Rightarrow> real \<times> real \<Rightarrow> real \<times> real \<Rightarrow> real \<Rightarrow> string option \<Rightarrow> real \<Rightarrow>
   string \<Rightarrow> real list \<Rightarrow> real list \<Rightarrow> error + transform" where
  "TrainTransform_init resize resize_mode pad scale ratio hflip auto_aug remode interpolation mean std =
     (case InterpolationMode_of interpolation of
        Inl e \<Rightarrow> Inl e
      | Inr interp \<Rightarrow>
          (case resize_stages resize resize_mode pad scale ratio interp of
             Inl e \<Rightarrow> Inl e
           | Inr rs \<Rightarrow>
               Inr ((if hflip \<noteq> 0 then [RandomHorizontalFlip hflip] else [])
                    @ auto_aug_stages auto_aug interp
                    @ rs
                    @ [ToTensor, Normalize mean std]
                    @ (if remode \<noteq> 0 then [RandomErasing remode] else []))))"

text \<open>Lines 64-82: the evaluation transform; the float division raises on a zero crop ratio.\<close>

definition ValTransform_init ::
  "size_arg \<Rightarrow> string \<Rightarrow> real \<Rightarrow> string \<Rightarrow> real list \<Rightarrow> real list \<Rightarrow> error + transform" where
  "ValTransform_init sz resize_mode crop_ptr interpolation mean std =
     (case InterpolationMode_of interpolation of
        Inl e \<Rightarrow> Inl e
      | Inr interp \<Rightarrow>
          (case (case sz of SizeInt n \<Rightarrow> (n, n) | SizePair h w \<Rightarrow> (h, w)) of (s0, s1) \<Rightarrow>
             if crop_ptr = 0 then Inl ZeroDivisionError
             else
               let r0 = \<lfloor>real_of_int s0 / crop_ptr\<rfloor>;
                   r1 = \<lfloor>real_of_int s1 / crop_ptr\<rfloor>;
                   resize = (if resize_mode = ''resize_shorter'' then SizeInt r0 else SizePair r0 r1)
               in Inr [Resize resize interp, CenterCrop (SizePair s0 s1), ToTensor, Normalize mean std]))"

section \<open>Run configuration\<close>

record args =
  dataset_type :: string
  data_dir :: string
  train_split :: string
  val_split :: string
  train_size :: size_arg
  train_resize_mode :: string
  random_crop_pad :: int
  random_crop_scale :: "real \<times> real"
  random_crop_ratio :: "real \<times> real"
  hflip :: real
  auto_aug :: "string option"
  remode :: real
  interpolation :: string
  mean :: "real list"
  std :: "real list"
  test_size :: size_arg
  test_resize_mode :: string
  center_crop_ptr :: real
  num_classes :: nat
  distributed :: bool
  mixup :: real
  cutmix :: real
  batch_size :: nat
  num_workers :: nat
  pin_memory :: bool

section \<open>Assembling the loaders\<close>

datatype sampler = DistributedSampler bool | RandomSampler | SequentialSampler

text \<open>Lines 159-163: the list of enabled operators; a float is truthy when it is not zero.\<close>

definition mix_collate :: "args \<Rightarrow> mix_op list" where
  "mix_collate a =
     (if mixup a \<noteq> 0 then [MixUP_init None (Some (mixup a)) (Some (num_classes a))] else [])
     @ (if cutmix a \<noteq> 0 then [CutMix_init None (Some (mixup a)) (Some (num_classes a))] else [])"

text \<open>
  \<^verbatim>\<open>RandomChoice(ops)(batch, target)\<close> applies the one operator that \<^verbatim>\<open>random.choices\<close> picked;
  its position \<open>k\<close> in the list is one more draw.
\<close>

definition RandomChoice_call ::
  "mix_op list \<Rightarrow> nat \<Rightarrow> draws \<Rightarrow> tensor4 \<Rightarrow> target \<Rightarrow> error + tensor4 \<times> target" where
  "RandomChoice_call ops k dr batch tgt =
     (if k < length ops then mix_op_call (ops ! k) dr batch tgt
      else Inl (IndexError ''list index out of range''))"

text \<open>
  Lines 165-169: the collate function applied to a batch that \<^verbatim>\<open>default_collate\<close> has
  stacked; without operators the loader keeps its default and the batch stays as stacked.
\<close>

definition collate_fn :: "args \<Rightarrow> nat \<Rightarrow> draws \<Rightarrow> tensor4 \<Rightarrow> target \<Rightarrow> error + tensor4 \<times> target" where
  "collate_fn a k dr batch tgt =
     (if mix_collate a \<noteq> [] then RandomChoice_call (mix_collate a) k dr batch tgt
      else Inr (batch, tgt))"

record loader =
  loader_sampler :: sampler
  loader_batch_size :: nat
  loader_num_workers :: nat
  loader_pin_memory :: bool
  loader_mix :: "mix_op list"

text \<open>Lines 149-180, without the length of the external loader object.\<close>

definition get_dataloader :: "args \<Rightarrow> loader \<times> loader" where
  "get_dataloader a =
     (let train_sampler = (if distributed a then DistributedSampler True else RandomSampler);
          val_sampler = (if distributed a then DistributedSampler False else SequentialSampler)
      in (\<lparr>loader_sampler = train_sampler, loader_batch_size = batch_size a,
            loader_num_workers = num_workers a, loader_pin_memory = pin_memory a,
            loader_mix = mix_collate a\<rparr>,
          \<lparr>loader_sampler = val_sampler, loader_batch_size = batch_size a,
            loader_num_workers = num_workers a, loader_pin_memory = False,
            loader_mix = []\<rparr>))"

section \<open>Building the datasets\<close>

datatype dataset_class = ImageFolder | CIFAR10 | CIFAR100 | FashionMNIST

definition dataset_dict :: "(string \<times> dataset_class) list" where
  "dataset_dict =
     [(''ImageFolder'', ImageFolder), (''CIFAR10'', CIFAR10),
      (''CIFAR100'', CIFAR100), (''FashionMNIST'', FashionMNIST)]"

text \<open>Subscripting the dictionary raises \<^verbatim>\<open>KeyError(key)\<close> on a key that is absent.\<close>

definition dict_get :: "(string \<times> 'v) list \<Rightarrow> string \<Rightarrow> error + 'v" where
  "dict_get d k = (case map_of d k of None \<Rightarrow> Inl (KeyError k) | Some v \<Rightarrow> Inr v)"

text \<open>\<^verbatim>\<open>os.path.join\<close> on two POSIX components.\<close>

definition path_join :: "string \<Rightarrow> string \<Rightarrow> string" where
  "path_join a b =
     (if prefix ''/'' b then b
      else if a = [] \<or> suffix ''/'' a then a @ b
      else a @ ''/'' @ b)"

text \<open>
  The dataset constructors are external: a constructor call either raises or yields a
  dataset object, of which only the class list is read.
\<close>

datatype ctor_args =
    FolderArgs string transform
  | SplitArgs string bool bool transform

record dataset =
  classes :: "string list"

type_synonym ctor = "dataset_class \<Rightarrow> ctor_args \<Rightarrow> error + dataset"

text \<open>Lines 183-198. The result carries the configuration with \<open>num_classes\<close> written back.\<close>

definition get_dataset :: "ctor \<Rightarrow> args \<Rightarrow> error + dataset \<times> dataset \<times> args" where
  "get_dataset new a =
     (case dict_get dataset_dict (dataset_type a) of
        Inl e \<Rightarrow> Inl e
      | Inr dataset_class \<Rightarrow>
     (case TrainTransform_init (train_size a) (train_resize_mode a) (random_crop_pad a)
             (random_crop_scale a) (random_crop_ratio a) (hflip a) (auto_aug a) (remode a)
             (interpolation a) (mean a) (std a) of
        Inl e \<Rightarrow> Inl e
      | Inr train_transform \<Rightarrow>
     (case ValTransform_init (test_size a) (test_resize_mode a) (center_crop_ptr a)
             (interpolation a) (mean a) (std a) of
        Inl e \<Rightarrow> Inl e
      | Inr val_transform \<Rightarrow>
          if dataset_type a = ''ImageFolder'' then
            (case new dataset_class (FolderArgs (path_join (data_dir a) (train_split a)) train_transform) of
               Inl e \<Rightarrow> Inl e
             | Inr train_dataset \<Rightarrow>
            (case new dataset_class (FolderArgs (path_join (data_dir a) (val_split a)) val_transform) of
               Inl e \<Rightarrow> Inl e
             | Inr val_dataset \<Rightarrow>
                 Inr (train_dataset, val_dataset, a\<lparr>num_classes := length (classes train_dataset)\<rparr>)))
          else if dataset_type a \<in> set (map fst dataset_dict) then
            (case new dataset_class (SplitArgs (data_dir a) True True train_transform) of
               Inl e \<Rightarrow> Inl e
             | Inr train_dataset \<Rightarrow>
            (case new dataset_class (SplitArgs (data_dir a) False True val_transform) of
               Inl e \<Rightarrow> Inl e
             | Inr val_dataset \<Rightarrow>
                 Inr (train_dataset, val_dataset, a\<lparr>num_classes := length (classes train_dataset)\<rparr>)))
          else
            (case assert_str (dataset_type a @ '' is not supported yet. Just make your own code for it'') of
               Inl e \<Rightarrow> Inl e
             | Inr _ \<Rightarrow> Inl (UnboundLocalError ''train_dataset'')))))"

text \<open>
  The text of an exception: a \<^verbatim>\<open>KeyError\<close> prints the \<^verbatim>\<open>repr\<close> of its key, the others their
  message.
\<close>

definition error_message :: "error \<Rightarrow> string" where
  "error_message e =
     (case e of
        KeyError k \<Rightarrow> py_repr k
      | ValueError m \<Rightarrow> m
      | RuntimeError m \<Rightarrow> m
      | ZeroDivisionError \<Rightarrow> ''division by zero''
      | AssertionError m \<Rightarrow> m
      | IndexError m \<Rightarrow> m
      | UnboundLocalError v \<Rightarrow> ''local variable '' @ py_repr v @ '' referenced before assignment'')"

text \<open>Whether a text contains a word, and whether it contains every key of the registry.\<close>

primrec contains :: "string \<Rightarrow> string \<Rightarrow> bool" where
  "contains [] w \<longleftrightarrow> w = []"
| "contains (c # cs) w \<longleftrightarrow> prefix w (c # cs) \<or> contains cs w"

definition names_accepted_set :: "string \<Rightarrow> bool" where
  "names_accepted_set msg \<longleftrightarrow> list_all (contains msg) (map fst dataset_dict)"

text \<open>
  A call of \<^verbatim>\<open>get_dataset\<close> that fails with an exception whose text names the dataset type
  asked for and every key of the registry.
\<close>

definition fails_naming_value_and_set :: "ctor \<Rightarrow> args \<Rightarrow> bool" where
  "fails_naming_value_and_set new a \<longleftrightarrow>
     (case get_dataset new a of
        Inl e \<Rightarrow> contains (error_message e) (dataset_type a) \<and> names_accepted_set (error_message e)
      | Inr _ \<Rightarrow> False)"

section \<open>The region that is overwritten\<close>

text \<open>
  The number of pixel positions of one \<open>H\<close> by \<open>W\<close> image that the slice assignment of line
  144 overwrites: the rows and the columns that the two slices select.
\<close>

definition swapped_area :: "int \<times> int \<times> int \<times> int \<Rightarrow> nat \<Rightarrow> nat \<Rightarrow> nat" where
  "swapped_area box H W =
     (case box of (start_x, end_x, start_y, end_y) \<Rightarrow>
        length (filter (in_slice start_x end_x) [0..<H]) *
        length (filter (in_slice start_y end_y) [0..<W]))"

section \<open>Rounded arithmetic\<close>

text \<open>
  The tensors hold floating-point numbers, and every tensor operation rounds its exact
  result to the tensor's type. The mixing steps of \<^verbatim>\<open>MixUP\<close> are given once more with that
  rounding \<open>fl\<close> as an argument: \<^verbatim>\<open>1 - sample[0]\<close> is one rounded subtraction, the scalar
  \<^verbatim>\<open>1-ratio\<close> is rounded to the tensor's type, and each of the two products and the sum is
  rounded. With the identity for \<open>fl\<close> these are the exact steps above.
\<close>

definition mix_fl :: "(real \<Rightarrow> real) \<Rightarrow> real \<Rightarrow> real \<Rightarrow> real \<Rightarrow> real" where
  "mix_fl fl ratio x y = fl (fl (x * fl (1 - ratio)) + fl (y * ratio))"

definition mix1_fl :: "(real \<Rightarrow> real) \<Rightarrow> real \<Rightarrow> real list \<Rightarrow> real list \<Rightarrow> real list" where
  "mix1_fl fl ratio xs ys = map2 (mix_fl fl ratio) xs ys"

definition mix2_fl ::
  "(real \<Rightarrow> real) \<Rightarrow> real \<Rightarrow> real list list \<Rightarrow> real list list \<Rightarrow> real list list" where
  "mix2_fl fl ratio xs ys = map2 (mix1_fl fl ratio) xs ys"

definition mix3_fl ::
  "(real \<Rightarrow> real) \<Rightarrow> real \<Rightarrow> real list list list \<Rightarrow> real list list list \<Rightarrow> real list list list" where
  "mix3_fl fl ratio xs ys = map2 (mix2_fl fl ratio) xs ys"

definition mix4_fl :: "(real \<Rightarrow> real) \<Rightarrow> real \<Rightarrow> tensor4 \<Rightarrow> tensor4 \<Rightarrow> tensor4" where
  "mix4_fl fl ratio t t' = t\<lparr>elems := map2 (mix3_fl fl ratio) (elems t) (elems t')\<rparr>"

definition MixUP_steps_fl ::
  "(real \<Rightarrow> real) \<Rightarrow> policy \<Rightarrow> draws \<Rightarrow> tensor4 \<Rightarrow> target \<Rightarrow> error + tensor4 \<times> target" where
  "MixUP_steps_fl fl self dr batch tgt =
     (case promote (nclass self) tgt of
        Inl e \<Rightarrow> Inl e
      | Inr T \<Rightarrow>
          let ratio = fl (1 - dir0 dr);
              batch_roll = roll4 batch;
              target_roll = roll T
          in Inr (mix4_fl fl ratio batch batch_roll, Soft (mix2_fl fl ratio T target_roll)))"

text \<open>Applying one function to every element of a batch.\<close>

definition map4 :: "(real \<Rightarrow> real) \<Rightarrow> tensor4 \<Rightarrow> tensor4" where
  "map4 f t = t\<lparr>elems := map (map (map (map f))) (elems t)\<rparr>"

text \<open>A rounding whose result at \<open>y\<close> is within the relative error \<open>eps\<close>.\<close>

definition rel_ok :: "(real \<Rightarrow> real) \<Rightarrow> real \<Rightarrow> real \<Rightarrow> bool" where
  "rel_ok fl eps y \<longleftrightarrow> \<bar>fl y - y\<bar> \<le> eps * \<bar>y\<bar>"

text \<open>The four roundings that blend an element \<open>x\<close> with itself, each within \<open>eps\<close>.\<close>

definition roundings_ok :: "(real \<Rightarrow> real) \<Rightarrow> real \<Rightarrow> real \<Rightarrow> real \<Rightarrow> bool" where
  "roundings_ok fl eps ratio x \<longleftrightarrow>
     rel_ok fl eps (1 - ratio) \<and> rel_ok fl eps (x * fl (1 - ratio)) \<and>
     rel_ok fl eps (x * ratio) \<and> rel_ok fl eps (fl (x * fl (1 - ratio)) + fl (x * ratio))"

text \<open>
  Rounding to the nearest number with a significand of 24 bits, ties to the even
  significand: the rounding of the 32-bit floating type for numbers in its normal range
  (the exponent is not bounded here, so overflow and subnormal numbers are not covered).
\<close>

definition round_even :: "real \<Rightarrow> int" where
  "round_even y =
     (let f = \<lfloor>y\<rfloor>; d = y - of_int f
      in if d < 1/2 then f else if d > 1/2 then f + 1 else if even f then f else f + 1)"

definition binary32 :: "real \<Rightarrow> real" where
  "binary32 x =
     (if x = 0 then 0
      else let e = \<lfloor>log 2 \<bar>x\<bar>\<rfloor> - 23
           in of_int (round_even (x / 2 powr of_int e)) * 2 powr of_int e)"

section \<open>Properties of targets\<close>

text \<open>
  A rank-2 tensor has rows of one length; the label mass of a soft target is one when
  every row sums to one.
\<close>

definition rectangular :: "'a list list \<Rightarrow> bool" where
  "rectangular T \<longleftrightarrow> list_all (\<lambda>r. list_all (\<lambda>r'. length r = length r') T) T"

definition label_mass :: "real list list \<Rightarrow> bool" where
  "label_mass T \<longleftrightarrow> list_all (\<lambda>row. sum_list row = 1) T"

definition mass_ok :: "target \<Rightarrow> bool" where
  "mass_ok t \<longleftrightarrow> (case t of Hard ls \<Rightarrow> True | Soft T \<Rightarrow> rectangular T \<and> label_mass T)"

section \<open>Sample inputs\<close>

definition demo_args :: args where
  "demo_args =
     \<lparr>dataset_type = ''CIFAR10'', data_dir = ''data'', train_split = ''train'', val_split = ''val'',
      train_size = SizeInt 224, train_resize_mode = ''RandomResizedCrop'', random_crop_pad = 0,
      random_crop_scale = (0.08, 1), random_crop_ratio = (3/4, 4/3), hflip = 0.5,
      auto_aug = None, remode = 0, interpolation = ''bilinear'',
      mean = [0.485, 0.456, 0.406], std = [0.229, 0.224, 0.225],
      test_size = SizeInt 224, test_resize_mode = ''resize_shorter'', center_crop_ptr = 0.875,
      num_classes = 10, distributed = False, mixup = 0.2, cutmix = 1, batch_size = 2,
      num_workers = 0, pin_memory = False\<rparr>"

definition demo_ctor :: ctor where
  "demo_ctor c x = Inr \<lparr>classes = [''cat'', ''dog'', ''bird'']\<rparr>"

definition demo_batch :: tensor4 where
  "demo_batch = \<lparr>shape = (2, 1, 2, 2), elems = [[[[1, 2], [3, 4]]], [[[5, 6], [7, 8]]]]\<rparr>"

definition demo_single :: tensor4 where
  "demo_single = \<lparr>shape = (1, 1, 2, 2), elems = [[[[1, 2], [3, 4]]]]\<rparr>"

definition demo_draws :: draws where
  "demo_draws = \<lparr>u_skip = 3/4, dir0 = 99/100, u_row = 0, u_col = 0\<rparr>"

definition tall_batch :: tensor4 where
  "tall_batch =
     \<lparr>shape = (2, 1, 4, 2),
      elems = [[[[1, 2], [3, 4], [5, 6], [7, 8]]], [[[9, 10], [11, 12], [13, 14], [15, 16]]]]\<rparr>"

definition tall_draws :: draws where
  "tall_draws = \<lparr>u_skip = 3/4, dir0 = 3/4, u_row = 3/4, u_col = 0\<rparr>"

text \<open>
  A batch of one sample with one element, the 32-bit number nearest to 5.6, and draws
  whose Dirichlet component is the 32-bit number nearest to 0.73.
\<close>

definition one_pixel :: tensor4 where
  "one_pixel = \<lparr>shape = (1, 1, 1, 1), elems = [[[[11744051 / 2097152]]]]\<rparr>"

definition one_pixel_draws :: draws where
  "one_pixel_draws = \<lparr>u_skip = 3/4, dir0 = 12247368 / 16777216, u_row = 0, u_col = 0\<rparr>"

section \<open>Auxiliary facts\<close>

lemma sum_list_mix1:
  "length xs = length ys \<Longrightarrow> sum_list (mix1 r xs ys) = sum_list xs * (1 - r) + sum_list ys * r"
proof (induction xs ys rule: list_induct2)
  case Nil
  show ?case by (simp add: mix1_def)
next
  case (Cons x xs y ys)
  then show ?case by (simp add: mix1_def mix_def algebra_simps)
qed

lemma set_roll: "set (roll xs) = set xs"
proof (cases xs rule: rev_cases)
  case Nil
  then show ?thesis by (simp add: roll_def)
next
  case (snoc ys y)
  then show ?thesis by (cases ys) (auto simp: roll_def)
qed

lemma length_roll: "length (roll xs) = length xs"
  by (cases xs) (simp_all add: roll_def)

lemma roll_nth:
  assumes "i < length xs"
  shows "roll xs ! i = xs ! ((i + length xs - 1) mod length xs)"
proof -
  from assms have ne: "xs \<noteq> []" by auto
  then have r: "roll xs = last xs # butlast xs"
    by (cases xs) (simp_all add: roll_def)
  show ?thesis
  proof (cases i)
    case 0
    have "(0 + length xs - 1) mod length xs = length xs - 1"
      using ne by simp
    then show ?thesis
      using ne 0 by (simp add: r last_conv_nth)
  next
    case (Suc j)
    with assms have j: "j < length (butlast xs)" by simp
    have "(i + length xs - 1) mod length xs = j"
      using Suc assms by simp
    moreover have "roll xs ! i = xs ! j"
      using j by (simp add: r Suc nth_butlast)
    ultimately show ?thesis by simp
  qed
qed

lemma roll_single: "length xs = 1 \<Longrightarrow> roll xs = xs"
  by (cases xs) (simp_all add: roll_def)

lemma label_mass_mix2:
  assumes "rectangular T" and "label_mass T"
  shows "label_mass (mix2 r T (roll T))"
  unfolding label_mass_def mix2_def list_all_iff
proof
  fix row
  assume "row \<in> set (map2 (mix1 r) T (roll T))"
  then obtain x y where xy: "(x, y) \<in> set (zip T (roll T))" and row: "row = mix1 r x y"
    by auto
  from xy have x: "x \<in> set T"
    by (rule set_zip_leftD)
  from xy have "y \<in> set (roll T)"
    by (rule set_zip_rightD)
  then have y: "y \<in> set T"
    by (simp only: set_roll)
  from assms(1) x y have "length x = length y"
    unfolding rectangular_def list_all_iff by blast
  moreover from assms(2) x y have "sum_list x = 1" and "sum_list y = 1"
    unfolding label_mass_def list_all_iff by blast+
  ultimately show "sum_list row = 1"
    by (simp add: row sum_list_mix1)
qed

lemma sum_list_one_hot_row:
  assumes "0 \<le> l" and "l < int n"
  shows "sum_list (one_hot_row n l) = 1"
proof -
  have "sum_list (one_hot_row n l) = (\<Sum>k\<leftarrow>[0..<n]. if k = nat l then 1 else 0)"
    unfolding one_hot_row_def using assms
    by (intro arg_cong [where f = sum_list] map_cong) auto
  also have "\<dots> = (\<Sum>k\<in>{0..<n}. if k = nat l then 1 else 0)"
    by (simp add: interv_sum_list_conv_sum_set_nat)
  also have "\<dots> = 1"
    using assms by (subst sum.delta) auto
  finally show ?thesis .
qed

lemma one_hot_mass:
  assumes "one_hot n ls = Inr T"
  shows "rectangular T \<and> label_mass T"
proof (cases "ls = []")
  case True
  with assms show ?thesis
    by (auto simp: one_hot_def rectangular_def label_mass_def split: if_splits)
next
  case False
  with assms have ok: "\<forall>l\<in>set ls. 0 \<le> l \<and> l < int n" and T: "T = map (one_hot_row n) ls"
    by (auto simp: one_hot_def list_all_iff split: if_splits)
  have "rectangular T"
    by (auto simp: T rectangular_def list_all_iff one_hot_row_def)
  moreover have "label_mass T"
    using ok by (auto simp: T label_mass_def list_all_iff sum_list_one_hot_row)
  ultimately show ?thesis ..
qed

lemma promote_mass:
  assumes "mass_ok tgt" and "promote n tgt = Inr T"
  shows "rectangular T \<and> label_mass T"
  using assms by (cases tgt) (auto simp: mass_ok_def promote_def dest: one_hot_mass)

lemma mix_same: "mix r x x = x"
  by (simp add: mix_def algebra_simps)

lemma map2_snd: "length xs = length ys \<Longrightarrow> map2 (\<lambda>x y. y) xs ys = ys"
  by (induction xs ys rule: list_induct2) simp_all

lemma mix1_one: "length xs = length ys \<Longrightarrow> mix1 1 xs ys = ys"
proof -
  assume "length xs = length ys"
  then have "map2 (\<lambda>x y. y) xs ys = ys" by (rule map2_snd)
  moreover have "mix 1 = (\<lambda>x y. y)" by (simp add: mix_def fun_eq_iff)
  ultimately show ?thesis by (simp add: mix1_def)
qed

lemma mix2_one:
  assumes "rectangular T"
  shows "mix2 1 T (roll T) = roll T"
proof -
  have "map2 (mix1 1) T (roll T) = map2 (\<lambda>x y. y) T (roll T)"
  proof (rule map_cong [OF refl])
    fix z
    assume "z \<in> set (zip T (roll T))"
    moreover obtain x y where z: "z = (x, y)"
      by (cases z)
    ultimately have x: "x \<in> set T" and y: "y \<in> set (roll T)"
      by (auto dest: set_zip_leftD set_zip_rightD)
    from y have "y \<in> set T" by (simp only: set_roll)
    with assms x have "length x = length y"
      unfolding rectangular_def list_all_iff by blast
    then show "(case z of (x, y) \<Rightarrow> mix1 1 x y) = (case z of (x, y) \<Rightarrow> y)"
      by (simp add: z mix1_one)
  qed
  also have "\<dots> = roll T"
    by (rule map2_snd) (simp add: length_roll)
  finally show ?thesis by (simp add: mix2_def)
qed

lemma mix2_roll_nth:
  assumes "rectangular T" and "i < length T" and "j < length (T ! i)"
  shows "mix2 r T (roll T) ! i ! j =
           T ! i ! j * (1 - r) + T ! ((i + length T - 1) mod length T) ! j * r"
proof -
  define k where "k = (i + length T - 1) mod length T"
  from assms(2) have "0 < length T"
    by (cases T) simp_all
  then have k: "k < length T"
    unfolding k_def by (rule mod_less_divisor)
  have shifted: "roll T ! i = T ! k"
    using assms(2) by (simp add: roll_nth k_def)
  from assms(1,2) k have len: "length (T ! k) = length (T ! i)"
    unfolding rectangular_def list_all_iff by (metis nth_mem)
  have "mix2 r T (roll T) ! i = mix1 r (T ! i) (T ! k)"
    using assms(2) by (simp add: mix2_def length_roll shifted)
  also have "\<dots> ! j = mix r (T ! i ! j) (T ! k ! j)"
    using assms(3) len by (simp add: mix1_def)
  finally show ?thesis
    by (simp add: mix_def k_def)
qed

lemma sqrt_hundredth: "sqrt (1/100) = 1/10"
  by (rule real_sqrt_unique) (simp_all add: power2_eq_square)

lemma sqrt_quarter: "sqrt (1/4) = 1/2"
  by (rule real_sqrt_unique) (simp_all add: power2_eq_square)

lemma CutMix_box_bounds:
  assumes "CutMix_box ratio H W dr = (x0, x1, y0, y1)"
  shows "0 \<le> x0 \<and> x1 \<le> int H \<and> 0 \<le> y0 \<and> y1 \<le> int W"
  using assms by (auto simp: CutMix_box_def Let_def)

lemma CutMix_box_rows_ordered:
  assumes "0 \<le> u_row dr" and "u_row dr < 1" and "0 \<le> ratio"
    and "CutMix_box ratio H W dr = (x0, x1, y0, y1)"
  shows "x0 \<le> x1"
proof (cases "H = 0")
  case True
  with assms(4) show ?thesis
    by (auto simp: CutMix_box_def Let_def py_int_def)
next
  case False
  then have H: "0 < real H" by simp
  define r where "r = py_int (u_row dr * real H)"
  define hh where "hh = py_int (0.5 * sqrt ratio * real H)"
  from assms(1) H have r0: "0 \<le> r"
    by (simp add: r_def py_int_def)
  from assms(2) H have "u_row dr * real H < real H"
    by simp
  then have "\<lfloor>u_row dr * real H\<rfloor> < int H"
    by (simp add: floor_less_iff)
  with assms(1) H have rH: "r < int H"
    by (simp add: r_def py_int_def)
  from assms(3) have hh0: "0 \<le> hh"
    by (simp add: hh_def py_int_def)
  from assms(4) have "x0 = max (r - hh) 0" and "x1 = min (r + hh) (int H)"
    by (simp_all add: CutMix_box_def Let_def r_def hh_def)
  with r0 rH hh0 show ?thesis by simp
qed

lemma CutMix_box_u_col: "CutMix_box ratio H W (dr\<lparr>u_col := v\<rparr>) = CutMix_box ratio H W dr"
  by (simp add: CutMix_box_def Let_def)

lemma CutMix_zero_area_ratio:
  assumes "H * W \<noteq> 0" and "(x1 - x0) * (y1 - y0) = 0"
  shows "CutMix_ratio (x0, x1, y0, y1) H W = Inr 1"
  using assms by (simp add: CutMix_ratio_def)

lemma CutMix_zero_area_labels:
  assumes "shape batch = (B, C, H, W)" and "H * W \<noteq> 0" and "dir0 dr \<le> 1"
    and "promote (nclass self) tgt = Inr T" and "rectangular T"
    and "CutMix_box (1 - dir0 dr) H W dr = (x0, x1, y0, y1)"
    and "(x1 - x0) * (y1 - y0) = 0"
  shows "CutMix_steps self dr batch tgt =
           Inr (paste4 (x0, x1, y0, y1) batch (roll4 batch), Soft (roll T))"
  using assms
  by (simp add: CutMix_steps_def Let_def CutMix_zero_area_ratio mix2_one)

lemma length_filter_in_slice:
  "int (length (filter (in_slice s e) [0..<n])) = max 0 (min e (int n) - max s 0)"
proof (induction n)
  case 0
  show ?case by simp
next
  case (Suc n)
  then show ?case
    by (auto simp: in_slice_def)
qed

lemma swapped_area_box:
  assumes "0 \<le> x0" "x0 \<le> x1" "x1 \<le> int H" "0 \<le> y0" "y0 \<le> y1" "y1 \<le> int W"
  shows "int (swapped_area (x0, x1, y0, y1) H W) = (x1 - x0) * (y1 - y0)"
  using assms by (simp add: swapped_area_def length_filter_in_slice)

lemma CutMix_ratio_swapped_area:
  assumes "0 \<le> x0" "x0 \<le> x1" "x1 \<le> int H" "0 \<le> y0" "y0 \<le> y1" "y1 \<le> int W"
    and "H * W \<noteq> 0"
  shows "CutMix_ratio (x0, x1, y0, y1) H W =
           Inr (1 - real (swapped_area (x0, x1, y0, y1) H W) / real (H * W))"
proof -
  have "real (swapped_area (x0, x1, y0, y1) H W) = real_of_int ((x1 - x0) * (y1 - y0))"
    using swapped_area_box [OF assms(1-6)] by (metis of_int_of_nat_eq)
  with assms(7) show ?thesis
    by (simp add: CutMix_ratio_def)
qed

lemma CutMix_steps_result:
  assumes "shape batch = (B, C, H, W)" and "H * W \<noteq> 0" and "dir0 dr \<le> 1"
    and "promote (nclass self) tgt = Inr T"
    and "CutMix_box (1 - dir0 dr) H W dr = (x0, x1, y0, y1)"
  shows "CutMix_steps self dr batch tgt =
           Inr (paste4 (x0, x1, y0, y1) batch (roll4 batch),
                Soft (mix2 (1 - real_of_int ((x1 - x0) * (y1 - y0)) / real (H * W)) T (roll T))) \<and>
         0 \<le> x0 \<and> x1 \<le> int H \<and> 0 \<le> y0 \<and> y1 \<le> int W"
proof -
  from assms(2) have "CutMix_ratio (x0, x1, y0, y1) H W =
      Inr (1 - real_of_int ((x1 - x0) * (y1 - y0)) / real (H * W))"
    by (simp add: CutMix_ratio_def)
  with assms(1,3,4,5) have "CutMix_steps self dr batch tgt =
           Inr (paste4 (x0, x1, y0, y1) batch (roll4 batch),
                Soft (mix2 (1 - real_of_int ((x1 - x0) * (y1 - y0)) / real (H * W)) T (roll T)))"
    by (simp add: CutMix_steps_def Let_def)
  with CutMix_box_bounds [OF assms(5)] show ?thesis
    by simp
qed

lemma CutMix_steps_result_example:
  "shape demo_batch = (2, 1, 2, 2) \<and> (2::nat) * 2 \<noteq> 0 \<and>
   dir0 (demo_draws\<lparr>dir0 := 0\<rparr>) \<le> 1 \<and>
   promote (nclass \<lparr>p = 0, alpha = 1, nclass = 2\<rparr>) (Hard [0, 1]) = Inr [[1, 0], [0, 1]] \<and>
   CutMix_box (1 - dir0 (demo_draws\<lparr>dir0 := 0\<rparr>)) 2 2 (demo_draws\<lparr>dir0 := 0\<rparr>) = (0, 1, 0, 1) \<and>
   CutMix_steps \<lparr>p = 0, alpha = 1, nclass = 2\<rparr> (demo_draws\<lparr>dir0 := 0\<rparr>) demo_batch (Hard [0, 1]) =
     Inr (paste4 (0, 1, 0, 1) demo_batch (roll4 demo_batch),
          Soft (mix2 (3/4) [[1, 0], [0, 1]] (roll [[1, 0], [0, 1]])))"
proof -
  have h1: "shape demo_batch = (2, 1, 2, 2)"
    by (simp add: demo_batch_def)
  have h2: "(2::nat) * 2 \<noteq> 0"
    by simp
  have h3: "dir0 (demo_draws\<lparr>dir0 := 0\<rparr>) \<le> 1"
    by simp
  have h4: "promote (nclass \<lparr>p = 0, alpha = 1, nclass = 2\<rparr>) (Hard [0, 1]) = Inr [[1, 0], [0, 1]]"
    by (simp add: promote_def one_hot_def one_hot_row_def upt_rec)
  have h5: "CutMix_box (1 - dir0 (demo_draws\<lparr>dir0 := 0\<rparr>)) 2 2 (demo_draws\<lparr>dir0 := 0\<rparr>) = (0, 1, 0, 1)"
    by (simp add: CutMix_box_def py_int_def demo_draws_def Let_def)
  from CutMix_steps_result [OF h1 h2 h3 h4 h5] h1 h2 h3 h4 h5 show ?thesis
    by simp
qed

lemma mix_collate_CutMix:
  assumes "cutmix a \<noteq> 0"
  shows "CutMix \<lparr>p = 1/2, alpha = mixup a, nclass = num_classes a\<rparr> \<in> set (mix_collate a)"
  using assms by (simp add: mix_collate_def CutMix_init_def policy_init_def)

lemma resize_stages_other_mode:
  assumes "resize_mode \<noteq> ''RandomResizedCrop''" and "resize_mode \<noteq> ''ResizeRandomCrop''"
  shows "resize_stages resize resize_mode pad scale ratio interp = Inr []"
  using assms by (simp add: resize_stages_def assert_str_def)

lemma TrainTransform_init_other_mode:
  assumes "resize_mode \<noteq> ''RandomResizedCrop''" and "resize_mode \<noteq> ''ResizeRandomCrop''"
    and "InterpolationMode_of ip = Inr interp"
  shows "TrainTransform_init resize resize_mode pad scale ratio hf aa re ip mu sd =
           Inr ((if hf \<noteq> 0 then [RandomHorizontalFlip hf] else [])
                @ auto_aug_stages aa interp
                @ [ToTensor, Normalize mu sd]
                @ (if re \<noteq> 0 then [RandomErasing re] else []))"
  using assms by (simp add: TrainTransform_init_def resize_stages_other_mode)

lemma get_dataset_unknown_mode_builds:
  "get_dataset demo_ctor (demo_args\<lparr>train_resize_mode := ''Unknown''\<rparr>) =
     Inr (\<lparr>classes = [''cat'', ''dog'', ''bird'']\<rparr>, \<lparr>classes = [''cat'', ''dog'', ''bird'']\<rparr>,
          demo_args\<lparr>train_resize_mode := ''Unknown'', num_classes := 3\<rparr>)"
  by (simp add: get_dataset_def dict_get_def dataset_dict_def demo_args_def demo_ctor_def
      TrainTransform_init_def resize_stages_def assert_str_def InterpolationMode_of_def
      auto_aug_stages_def ValTransform_init_def Let_def)

lemma dict_get_absent:
  assumes "k \<notin> set (map fst d)"
  shows "dict_get d k = Inl (KeyError k)"
proof -
  from assms have "map_of d k = None"
    by (simp add: map_of_eq_None_iff)
  then show ?thesis by (simp add: dict_get_def)
qed

lemma repr_char_plain:
  assumes "plain_char c"
  shows "repr_char (CHR 0x27) c = [c]"
proof -
  from assms have n: "32 \<le> (of_char c :: nat)" "(of_char c :: nat) < 127"
    "(of_char c :: nat) \<noteq> 39" "(of_char c :: nat) \<noteq> 92"
    by (simp_all add: plain_char_def Let_def)
  from n have "c \<noteq> CHR 0x27" "c \<noteq> CHR 0x5C" "c \<noteq> CHR 0x09" "c \<noteq> CHR 0x0A" "c \<noteq> CHR 0x0D"
    by auto
  moreover from n have "printable c"
    by (simp add: printable_def Let_def)
  ultimately show ?thesis
    by (simp add: repr_char_def)
qed

lemma plain_not_apostrophe: "plain_char c \<Longrightarrow> c \<noteq> CHR 0x27"
  by (auto simp: plain_char_def Let_def)

lemma concat_repr_plain:
  assumes "list_all plain_char s"
  shows "concat (map (repr_char (CHR 0x27)) s) = s"
  using assms by (induction s) (simp_all add: repr_char_plain)

lemma py_repr_plain:
  assumes "list_all plain_char s"
  shows "py_repr s = [CHR 0x27] @ s @ [CHR 0x27]"
proof -
  from assms have "CHR 0x27 \<notin> set s"
    by (auto simp: list_all_iff dest: plain_not_apostrophe)
  then show ?thesis
    by (simp add: py_repr_def Let_def concat_repr_plain [OF assms])
qed

lemma py_repr_Foo: "py_repr ''Foo'' = [CHR 0x27] @ ''Foo'' @ [CHR 0x27]"
  by (rule py_repr_plain) (simp add: plain_char_def)

lemma py_repr_backslash: "py_repr [CHR ''a'', CHR 0x5C, CHR ''b''] = [CHR 0x27, CHR ''a'', CHR 0x5C, CHR 0x5C, CHR ''b'', CHR 0x27]"
  by (simp add: py_repr_def Let_def repr_char_def printable_def)

lemma py_repr_newline: "py_repr [CHR ''a'', CHR 0x0A] = [CHR 0x27, CHR ''a'', CHR 0x5C, CHR ''n'', CHR 0x27]"
  by (simp add: py_repr_def Let_def repr_char_def printable_def)

lemma py_repr_apostrophe: "py_repr [CHR ''a'', CHR 0x27] = [CHR 0x22, CHR ''a'', CHR 0x27, CHR 0x22]"
  by (simp add: py_repr_def Let_def repr_char_def printable_def)

lemma py_repr_escape: "py_repr [CHR 0x01] = [CHR 0x27, CHR 0x5C, CHR ''x'', CHR ''0'', CHR ''1'', CHR 0x27]"
  by (simp add: py_repr_def Let_def repr_char_def printable_def hex_digit_def)

lemma mix_fl_self_tolerance:
  fixes fl :: "real \<Rightarrow> real"
  assumes eps: "0 \<le> eps" and r: "0 \<le> r" "r \<le> 1"
    and a: "rel_ok fl eps (1 - r)"
    and p1: "rel_ok fl eps (x * fl (1 - r))"
    and p2: "rel_ok fl eps (x * r)"
    and s: "rel_ok fl eps (fl (x * fl (1 - r)) + fl (x * r))"
  shows "\<bar>mix_fl fl r x x - x\<bar> \<le> ((1 + eps) ^ 3 - 1) * \<bar>x\<bar>"
proof -
  define A where "A = fl (1 - r)"
  define P1 where "P1 = fl (x * A)"
  define P2 where "P2 = fl (x * r)"
  define S where "S = P1 + P2"
  define X where "X = \<bar>x\<bar>"
  define q where "q = 1 - r"
  have X: "0 \<le> X" by (simp add: X_def)
  have q: "0 \<le> q" using r by (simp add: q_def)
  have a1: "\<bar>A - q\<bar> \<le> eps * q"
    using a q by (simp add: rel_ok_def A_def q_def)
  with q have A_bound: "\<bar>A\<bar> \<le> q + eps * q"
    by linarith
  have "\<bar>P1 - x * A\<bar> \<le> eps * (X * \<bar>A\<bar>)"
    using p1 by (simp add: rel_ok_def P1_def A_def X_def abs_mult)
  also have "\<dots> \<le> eps * (X * (q + eps * q))"
    using A_bound eps X by (intro mult_left_mono) auto
  finally have p1': "\<bar>P1 - x * A\<bar> \<le> eps * (X * (q + eps * q))" .
  have "\<bar>x * A - x * q\<bar> = X * \<bar>A - q\<bar>"
    by (simp add: X_def abs_mult [symmetric] right_diff_distrib)
  also have "\<dots> \<le> X * (eps * q)"
    using a1 X by (rule mult_left_mono)
  finally have e1: "\<bar>x * A - x * q\<bar> \<le> X * (eps * q)" .
  have "\<bar>P1 - x * q\<bar> \<le> \<bar>P1 - x * A\<bar> + \<bar>x * A - x * q\<bar>"
    by linarith
  with p1' e1 have d1: "\<bar>P1 - x * q\<bar> \<le> eps * (X * (q + eps * q)) + X * (eps * q)"
    by linarith
  have d2: "\<bar>P2 - x * r\<bar> \<le> eps * (X * r)"
    using p2 r by (simp add: rel_ok_def P2_def X_def abs_mult)
  have "S - x = (P1 - x * q) + (P2 - x * r)"
    by (simp add: S_def q_def algebra_simps)
  then have "\<bar>S - x\<bar> \<le> \<bar>P1 - x * q\<bar> + \<bar>P2 - x * r\<bar>"
    by linarith
  with d1 d2 have "\<bar>S - x\<bar> \<le> eps * (X * (q + eps * q)) + X * (eps * q) + eps * (X * r)"
    by linarith
  also have "\<dots> = X * (eps * (2 * q + r) + eps * eps * q)"
    by (simp add: algebra_simps)
  also have "\<dots> \<le> X * (2 * eps + eps * eps)"
  proof (rule mult_left_mono [OF _ X])
    have "eps * eps * q \<le> eps * eps * 1"
      using r eps by (intro mult_left_mono) (auto simp: q_def)
    moreover have "eps * (2 * q + r) \<le> eps * 2"
      using r eps by (intro mult_left_mono) (auto simp: q_def)
    ultimately show "eps * (2 * q + r) + eps * eps * q \<le> 2 * eps + eps * eps" by simp
  qed
  finally have dS: "\<bar>S - x\<bar> \<le> X * (2 * eps + eps * eps)" .
  have "\<bar>S\<bar> \<le> X + \<bar>S - x\<bar>"
    unfolding X_def by linarith
  with dS have S_bound: "\<bar>S\<bar> \<le> X + X * (2 * eps + eps * eps)"
    by linarith
  have "\<bar>fl S - S\<bar> \<le> eps * \<bar>S\<bar>"
    using s by (simp add: rel_ok_def S_def P1_def P2_def A_def)
  also have "\<dots> \<le> eps * (X + X * (2 * eps + eps * eps))"
    using S_bound eps by (rule mult_left_mono)
  finally have dfl: "\<bar>fl S - S\<bar> \<le> eps * (X + X * (2 * eps + eps * eps))" .
  have "\<bar>fl S - x\<bar> \<le> \<bar>fl S - S\<bar> + \<bar>S - x\<bar>"
    by linarith
  with dfl dS have "\<bar>fl S - x\<bar> \<le> eps * (X + X * (2 * eps + eps * eps)) + X * (2 * eps + eps * eps)"
    by linarith
  also have "\<dots> = ((1 + eps) ^ 3 - 1) * X"
    by (simp add: power3_eq_cube algebra_simps)
  finally have "\<bar>fl S - x\<bar> \<le> ((1 + eps) ^ 3 - 1) * X" .
  moreover have "mix_fl fl r x x = fl S"
    by (simp add: mix_fl_def S_def P1_def P2_def A_def)
  ultimately show ?thesis
    by (simp add: X_def)
qed

lemma floor_log2:
  assumes "2 powr of_int k \<le> x" and "x < 2 powr (of_int k + 1)"
  shows "\<lfloor>log 2 x\<rfloor> = k"
proof (rule floor_unique)
  have "0 < 2 powr real_of_int k" by simp
  with assms(1) have pos: "0 < x" by linarith
  from assms(1) pos show "of_int k \<le> log 2 x"
    by (simp add: le_log_iff)
  from assms(2) pos show "log 2 x < of_int k + 1"
    by (simp add: log_less_iff)
qed

lemma binary32_eval:
  assumes "2 powr of_int k \<le> \<bar>x\<bar>" and "\<bar>x\<bar> < 2 powr (of_int k + 1)"
  shows "binary32 x = of_int (round_even (x / 2 powr of_int (k - 23))) * 2 powr of_int (k - 23)"
proof -
  have "0 < 2 powr real_of_int k" by simp
  with assms(1) have "x \<noteq> 0" by auto
  moreover have "\<lfloor>log 2 \<bar>x\<bar>\<rfloor> = k"
    using assms by (rule floor_log2)
  ultimately show ?thesis
    by (simp add: binary32_def Let_def)
qed

lemma b32_ratio: "binary32 (1 - 12247368 / 16777216) = 566231 / 2097152"
  using binary32_eval [of "-2" "1 - 12247368 / 16777216"]
  by (simp add: powr_neg_numeral round_even_def)

lemma b32_om: "binary32 (1 - 566231 / 2097152) = 1530921 / 2097152"
  using binary32_eval [of "-1" "1 - 566231 / 2097152"]
  by (simp add: powr_neg_numeral round_even_def)

lemma b32_p1: "binary32 (11744051 / 2097152 * (1530921 / 2097152)) = 8573157 / 2097152"
  using binary32_eval [of 2 "11744051 / 2097152 * (1530921 / 2097152)"]
  by (simp add: powr_neg_numeral round_even_def)

lemma b32_p2: "binary32 (11744051 / 2097152 * (566231 / 2097152)) = 6341787 / 4194304"
  using binary32_eval [of 0 "11744051 / 2097152 * (566231 / 2097152)"]
  by (simp add: powr_neg_numeral round_even_def)

lemma b32_sum: "binary32 (8573157 / 2097152 + 6341787 / 4194304) = 5872025 / 1048576"
  using binary32_eval [of 2 "8573157 / 2097152 + 6341787 / 4194304"]
  by (simp add: powr_neg_numeral round_even_def)

lemma b32_one: "binary32 1 = 1"
  using binary32_eval [of 0 1]
  by (simp add: powr_neg_numeral round_even_def)

lemma b32_om_fix: "binary32 (1 * (1530921 / 2097152)) = 1530921 / 2097152"
  using binary32_eval [of "-1" "1 * (1530921 / 2097152)"]
  by (simp add: powr_neg_numeral round_even_def)

lemma b32_ratio_fix: "binary32 (1 * (566231 / 2097152)) = 566231 / 2097152"
  using binary32_eval [of "-2" "1 * (566231 / 2097152)"]
  by (simp add: powr_neg_numeral round_even_def)

lemma b32_zero: "binary32 0 = 0"
  by (simp add: binary32_def)

lemma mix_fl_pixel:
  "mix_fl binary32 (566231 / 2097152) (11744051 / 2097152) (11744051 / 2097152) = 5872025 / 1048576"
  by (simp only: mix_fl_def b32_om b32_p1 b32_p2 b32_sum)

lemma mix_fl_label_one: "mix_fl binary32 (566231 / 2097152) 1 1 = 1"
proof -
  have "1530921 / 2097152 + 566231 / 2097152 = (1::real)" by simp
  then show ?thesis
    by (simp only: mix_fl_def b32_om b32_om_fix b32_ratio_fix b32_one)
qed

lemma mix_fl_label_zero: "mix_fl binary32 (566231 / 2097152) 0 0 = 0"
  by (simp add: mix_fl_def b32_zero)

lemma roundings_ok_pixel:
  "roundings_ok binary32 (1 / 16777216) (566231 / 2097152) (11744051 / 2097152)"
  by (simp only: roundings_ok_def rel_ok_def b32_om b32_p1 b32_p2 b32_sum) simp

lemma map2_diag: "map2 f xs xs = map (\<lambda>x. f x x) xs"
  by (induction xs) simp_all

lemma mix1_fl_diag: "mix1_fl fl r xs xs = map (\<lambda>x. mix_fl fl r x x) xs"
  by (simp add: mix1_fl_def map2_diag)

lemma mix2_fl_diag: "mix2_fl fl r xs xs = map (map (\<lambda>x. mix_fl fl r x x)) xs"
  by (simp add: mix2_fl_def map2_diag mix1_fl_diag)

lemma mix3_fl_diag: "mix3_fl fl r xs xs = map (map (map (\<lambda>x. mix_fl fl r x x))) xs"
  by (simp add: mix3_fl_def map2_diag mix2_fl_diag)

lemma mix4_fl_single:
  assumes "length (elems batch) = 1"
  shows "mix4_fl fl r batch (roll4 batch) = map4 (\<lambda>x. mix_fl fl r x x) batch"
  by (simp add: mix4_fl_def roll4_def map4_def roll_single [OF assms] map2_diag mix3_fl_diag)

lemma mix_fl_id: "mix_fl id r x y = mix r x y"
  by (simp add: mix_fl_def mix_def)

lemma map4_exact: "map4 (\<lambda>x. mix_fl id r x x) batch = batch"
  by (simp add: map4_def mix_fl_id mix_same)

lemma MixUP_steps_fl_id: "MixUP_steps_fl id self dr batch tgt = MixUP_steps self dr batch tgt"
proof -
  have "mix_fl id r = mix r" for r
    by (simp add: fun_eq_iff mix_fl_id)
  then have m1: "mix1_fl id r = mix1 r" for r
    by (simp add: fun_eq_iff mix1_fl_def mix1_def)
  then have m2: "mix2_fl id r = mix2 r" for r
    by (simp add: fun_eq_iff mix2_fl_def mix2_def)
  then have m3: "mix3_fl id r = mix3 r" for r
    by (simp add: fun_eq_iff mix3_fl_def mix3_def)
  then have "mix4_fl id r = mix4 r" for r
    by (simp add: fun_eq_iff mix4_fl_def mix4_def)
  with m2 show ?thesis
    by (simp add: MixUP_steps_fl_def MixUP_steps_def Let_def split: sum.splits)
qed

section \<open>Label mass\<close>

text \<open>
  Claim C1. Whenever the mixing steps of \<^verbatim>\<open>MixUP\<close> or of \<^verbatim>\<open>CutMix\<close> return, on a hard target
  or on a soft target whose rows each sum to one, the target returned is soft and each of
  its rows sums to one, whatever the ratio drawn or recomputed.
\<close>

theorem label_mass_invariant:
  assumes "mass_ok tgt"
    and "MixUP_steps self dr batch tgt = Inr (b', t') \<or> CutMix_steps self dr batch tgt = Inr (b', t')"
  shows "\<exists>T'. t' = Soft T' \<and> label_mass T'"
  using assms(2)
proof
  assume "MixUP_steps self dr batch tgt = Inr (b', t')"
  then obtain T where T: "promote (nclass self) tgt = Inr T"
    and t': "t' = Soft (mix2 (1 - dir0 dr) T (roll T))"
    by (auto simp: MixUP_steps_def Let_def split: sum.splits)
  from promote_mass [OF assms(1) T] show ?thesis
    by (auto simp: t' intro: label_mass_mix2)
next
  assume "CutMix_steps self dr batch tgt = Inr (b', t')"
  then obtain T r where T: "promote (nclass self) tgt = Inr T"
    and t': "t' = Soft (mix2 r T (roll T))"
    by (auto simp: CutMix_steps_def Let_def split: sum.splits prod.splits if_splits)
  from promote_mass [OF assms(1) T] show ?thesis
    by (auto simp: t' intro: label_mass_mix2)
qed

theorem label_mass_invariant_witness:
  "mass_ok (Hard [0, 1]) \<and>
   MixUP_steps \<lparr>p = 0, alpha = 1, nclass = 2\<rparr> demo_draws demo_batch (Hard [0, 1]) =
     Inr (mix4 (1/100) demo_batch (roll4 demo_batch), Soft [[99/100, 1/100], [1/100, 99/100]]) \<and>
   label_mass [[99/100, 1/100], [1/100, 99/100]]"
proof -
  have h1: "mass_ok (Hard [0, 1])"
    by (simp add: mass_ok_def)
  have h2: "MixUP_steps \<lparr>p = 0, alpha = 1, nclass = 2\<rparr> demo_draws demo_batch (Hard [0, 1]) =
     Inr (mix4 (1/100) demo_batch (roll4 demo_batch), Soft [[99/100, 1/100], [1/100, 99/100]])"
    by (simp add: MixUP_steps_def promote_def one_hot_def one_hot_row_def roll_def mix2_def
        mix1_def mix_def demo_draws_def upt_rec Let_def)
  from label_mass_invariant [OF h1 disjI1 [OF h2]] h1 h2 show ?thesis
    by simp
qed

section \<open>A swap region of zero area\<close>

text \<open>
  Claim C2, evaluated on the code. Two images of 2 by 2 pixels with labels 0 and 1, the
  nominal ratio 1/100 and the centre at the corner (0, 0): the region is empty and no
  exception is raised, the batch comes back unchanged, but the recomputed ratio is 1 and
  the target returned is the shifted one-hot target, not the one-hot target of the input.
\<close>

theorem CutMix_zero_area_replaces_labels:
  "CutMix_box (1 - dir0 demo_draws) 2 2 demo_draws = (0, 0, 0, 0) \<and>
   CutMix_ratio (0, 0, 0, 0) 2 2 = Inr 1 \<and>
   promote 2 (Hard [0, 1]) = Inr [[1, 0], [0, 1]] \<and>
   CutMix_call \<lparr>p = 0, alpha = 1, nclass = 2\<rparr> demo_draws demo_batch (Hard [0, 1]) =
     Inr (demo_batch, Soft [[0, 1], [1, 0]])"
proof -
  have box: "CutMix_box (1 - dir0 demo_draws) 2 2 demo_draws = (0, 0, 0, 0)"
    by (simp add: CutMix_box_def py_int_def demo_draws_def Let_def sqrt_hundredth)
  have ratio: "CutMix_ratio (0, 0, 0, 0) 2 2 = Inr 1"
    by (simp add: CutMix_ratio_def)
  have prom: "promote 2 (Hard [0, 1]) = Inr [[1, 0], [0, 1]]"
    by (simp add: promote_def one_hot_def one_hot_row_def upt_rec)
  have paste: "paste4 (0, 0, 0, 0) demo_batch (roll4 demo_batch) = demo_batch"
    by (simp add: paste4_def paste_image_def paste_row_def in_slice_def roll4_def roll_def
        demo_batch_def upt_rec)
  have labels: "mix2 1 [[1, 0], [0, 1]] (roll [[1, 0], [0, 1]]) = [[0, 1], [1, 0]]"
    by (simp add: mix2_def mix1_def mix_def roll_def)
  have shp: "shape demo_batch = (2, 1, 2, 2)"
    by (simp add: demo_batch_def)
  have skip: "\<not> 0 > u_skip demo_draws" "\<not> 1 < dir0 demo_draws"
    by (simp_all add: demo_draws_def)
  have "CutMix_call \<lparr>p = 0, alpha = 1, nclass = 2\<rparr> demo_draws demo_batch (Hard [0, 1]) =
     Inr (demo_batch, Soft [[0, 1], [1, 0]])"
    by (simp add: CutMix_call_def CutMix_steps_def Let_def shp prom box ratio paste labels skip)
  with box ratio prom show ?thesis by simp
qed

section \<open>The recomputed ratio\<close>

text \<open>
  Claim C3, evaluated on the code. Two images of 4 rows by 2 columns with labels 0 and 1,
  the nominal ratio 1/4 and the row draw 3/4: the bounds computed are \<open>(2, 4, 3, 2)\<close>, whose
  column interval starts after it ends and beyond the width. No pixel is overwritten, so
  the overwritten share of the image is 0 and one minus that share is 1; the ratio used for
  the labels is 5/4, and the target returned has the weights \<open>-1/4\<close> and \<open>5/4\<close>.
\<close>

theorem CutMix_inverted_box:
  "CutMix_box (1 - dir0 tall_draws) 4 2 tall_draws = (2, 4, 3, 2) \<and>
   swapped_area (2, 4, 3, 2) 4 2 = 0 \<and>
   CutMix_ratio (2, 4, 3, 2) 4 2 = Inr (5/4) \<and>
   1 - real (swapped_area (2, 4, 3, 2) 4 2) / real (4 * 2) = 1 \<and>
   CutMix_steps \<lparr>p = 0, alpha = 1, nclass = 2\<rparr> tall_draws tall_batch (Hard [0, 1]) =
     Inr (tall_batch, Soft [[- (1/4), 5/4], [5/4, - (1/4)]])"
proof -
  have box: "CutMix_box (1 - dir0 tall_draws) 4 2 tall_draws = (2, 4, 3, 2)"
    by (simp add: CutMix_box_def py_int_def tall_draws_def Let_def sqrt_quarter)
  have area: "swapped_area (2, 4, 3, 2) 4 2 = 0"
    by (simp add: swapped_area_def in_slice_def upt_rec)
  have ratio: "CutMix_ratio (2, 4, 3, 2) 4 2 = Inr (5/4)"
    by (simp add: CutMix_ratio_def)
  have prom: "promote 2 (Hard [0, 1]) = Inr [[1, 0], [0, 1]]"
    by (simp add: promote_def one_hot_def one_hot_row_def upt_rec)
  have paste: "paste4 (2, 4, 3, 2) tall_batch (roll4 tall_batch) = tall_batch"
    by (simp add: paste4_def paste_image_def paste_row_def in_slice_def roll4_def roll_def
        tall_batch_def upt_rec)
  have labels: "mix2 (5/4) [[1, 0], [0, 1]] (roll [[1, 0], [0, 1]]) = [[- (1/4), 5/4], [5/4, - (1/4)]]"
    by (simp add: mix2_def mix1_def mix_def roll_def)
  have shp: "shape tall_batch = (2, 1, 4, 2)"
    by (simp add: tall_batch_def)
  have dom: "\<not> 1 < dir0 tall_draws"
    by (simp add: tall_draws_def)
  have "CutMix_steps \<lparr>p = 0, alpha = 1, nclass = 2\<rparr> tall_draws tall_batch (Hard [0, 1]) =
     Inr (tall_batch, Soft [[- (1/4), 5/4], [5/4, - (1/4)]])"
    by (simp add: CutMix_steps_def Let_def shp prom box ratio paste labels dom)
  with box area ratio show ?thesis by simp
qed

section \<open>The centre of the swap region\<close>

text \<open>
  Claim C4, evaluated on the code. On an image of 4 by 4 pixels with nominal ratio 1/4 and
  the row draw 0, the column draw 3/4 (column 3, half-width 1) gives the column bounds
  \<open>[0, 1)\<close>, the same as the column draw 0: the column bounds are taken around the row
  coordinate.
\<close>

theorem CutMix_box_ignores_column_draw:
  "CutMix_box (1/4) 4 4 \<lparr>u_skip = 3/4, dir0 = 3/4, u_row = 0, u_col = 3/4\<rparr> = (0, 1, 0, 1) \<and>
   CutMix_box (1/4) 4 4 \<lparr>u_skip = 3/4, dir0 = 3/4, u_row = 0, u_col = 0\<rparr> = (0, 1, 0, 1) \<and>
   py_int (3/4 * real 4) = 3 \<and> py_int (0.5 * sqrt (1/4) * real 4) = 1"
  by (simp add: CutMix_box_def py_int_def Let_def sqrt_quarter)

section \<open>The concentration parameter handed to CutMix\<close>

text \<open>
  Claim C5, evaluated on the code. With \<open>mixup = 0.2\<close> and \<open>cutmix = 1\<close> configured, the
  \<^verbatim>\<open>CutMix\<close> operator that \<^verbatim>\<open>get_dataloader\<close> constructs has \<open>alpha = 0.2\<close>.
\<close>

theorem mix_collate_CutMix_alpha:
  "mixup demo_args = 1/5 \<and> cutmix demo_args = 1 \<and>
   mix_collate demo_args =
     [MixUP \<lparr>p = 1/2, alpha = 1/5, nclass = 10\<rparr>, CutMix \<lparr>p = 1/2, alpha = 1/5, nclass = 10\<rparr>]"
  by (simp add: mix_collate_def MixUP_init_def CutMix_init_def policy_init_def demo_args_def)

section \<open>An unknown resize mode\<close>

text \<open>
  Claim C6, evaluated on the code. Constructing the training transform with the resize mode
  \<^verbatim>\<open>Unknown\<close> raises nothing: it returns a transform without any resize stage.
\<close>

theorem TrainTransform_unknown_mode_builds:
  "TrainTransform_init (SizeInt 224) ''Unknown'' 0 (0.08, 1) (3/4, 4/3) 0.5 None 0 ''bilinear''
     [0.485, 0.456, 0.406] [0.229, 0.224, 0.225] =
   Inr [RandomHorizontalFlip 0.5, ToTensor, Normalize [0.485, 0.456, 0.406] [0.229, 0.224, 0.225]]"
  by (simp add: TrainTransform_init_def resize_stages_def assert_str_def InterpolationMode_of_def
      auto_aug_stages_def)

section \<open>An unsupported dataset type\<close>

text \<open>
  Claim C7 as stated fails: for the dataset type \<^verbatim>\<open>Foo\<close> the call does not fail with an
  exception whose text names both the type asked for and the keys of the registry.
\<close>

theorem get_dataset_message_counterexample:
  "\<not> fails_naming_value_and_set demo_ctor (demo_args\<lparr>dataset_type := ''Foo''\<rparr>)"
proof -
  have "get_dataset demo_ctor (demo_args\<lparr>dataset_type := ''Foo''\<rparr>) = Inl (KeyError ''Foo'')"
    by (simp add: get_dataset_def dict_get_def dataset_dict_def)
  moreover have "\<not> names_accepted_set (error_message (KeyError ''Foo''))"
    by (simp add: names_accepted_set_def error_message_def dataset_dict_def py_repr_Foo)
  ultimately show ?thesis
    by (simp add: fails_naming_value_and_set_def)
qed

text \<open>
  Claim C7, amended. For a dataset type that is no key of the registry, \<^verbatim>\<open>get_dataset\<close> fails
  at the dictionary lookup, before any transform or dataset is constructed and whatever the
  constructors would do, with the \<^verbatim>\<open>KeyError\<close> of that type. The text of the exception is the
  \<^verbatim>\<open>repr\<close> of the type asked for: the type between apostrophes when it consists of printable
  ASCII characters other than the apostrophe and the backslash.
\<close>

theorem get_dataset_unsupported_type:
  assumes "dataset_type a \<notin> set (map fst dataset_dict)"
  shows "get_dataset new a = Inl (KeyError (dataset_type a)) \<and>
         error_message (KeyError (dataset_type a)) = py_repr (dataset_type a) \<and>
         (list_all plain_char (dataset_type a) \<longrightarrow>
            error_message (KeyError (dataset_type a)) = [CHR 0x27] @ dataset_type a @ [CHR 0x27])"
proof -
  have "get_dataset new a = Inl (KeyError (dataset_type a))"
    by (simp add: get_dataset_def dict_get_absent [OF assms])
  moreover have "error_message (KeyError (dataset_type a)) = py_repr (dataset_type a)"
    by (simp add: error_message_def)
  ultimately show ?thesis
    by (simp add: py_repr_plain)
qed

theorem get_dataset_unsupported_type_witness:
  "dataset_type (demo_args\<lparr>dataset_type := ''Foo''\<rparr>) \<notin> set (map fst dataset_dict) \<and>
   get_dataset demo_ctor (demo_args\<lparr>dataset_type := ''Foo''\<rparr>) = Inl (KeyError ''Foo'') \<and>
   list_all plain_char ''Foo'' \<and>
   error_message (KeyError ''Foo'') = [CHR 0x27] @ ''Foo'' @ [CHR 0x27]"
proof -
  have h: "dataset_type (demo_args\<lparr>dataset_type := ''Foo''\<rparr>) \<notin> set (map fst dataset_dict)"
    by (simp add: dataset_dict_def)
  have pl: "list_all plain_char ''Foo''"
    by (simp add: plain_char_def)
  from get_dataset_unsupported_type [OF h, of demo_ctor] h pl show ?thesis
    by (simp add: py_repr_Foo)
qed

section \<open>The skip test\<close>

text \<open>
  Claim C8. Each operator returns batch and target unchanged exactly when \<open>p > u\<close> for its
  draw \<open>u\<close> from \<open>[0, 1)\<close>, and runs its mixing steps otherwise: with \<open>p = 1\<close> it returns
  them unchanged for every draw, with \<open>p = 0\<close> it runs its mixing steps for every draw.
\<close>

theorem skip_probability_boundary:
  assumes "0 \<le> u_skip dr" and "u_skip dr < 1"
  shows "MixUP_call (self\<lparr>p := 1\<rparr>) dr batch tgt = Inr (batch, tgt) \<and>
         CutMix_call (self\<lparr>p := 1\<rparr>) dr batch tgt = Inr (batch, tgt) \<and>
         MixUP_call (self\<lparr>p := 0\<rparr>) dr batch tgt = MixUP_steps (self\<lparr>p := 0\<rparr>) dr batch tgt \<and>
         CutMix_call (self\<lparr>p := 0\<rparr>) dr batch tgt = CutMix_steps (self\<lparr>p := 0\<rparr>) dr batch tgt \<and>
         MixUP_call self dr batch tgt =
           (if p self > u_skip dr then Inr (batch, tgt) else MixUP_steps self dr batch tgt) \<and>
         CutMix_call self dr batch tgt =
           (if p self > u_skip dr then Inr (batch, tgt) else CutMix_steps self dr batch tgt)"
  using assms by (simp add: MixUP_call_def CutMix_call_def)

theorem skip_probability_boundary_witness:
  "0 \<le> u_skip demo_draws \<and> u_skip demo_draws < 1 \<and>
   MixUP_call \<lparr>p = 1, alpha = 1, nclass = 2\<rparr> demo_draws demo_batch (Hard [0, 1]) =
     Inr (demo_batch, Hard [0, 1]) \<and>
   CutMix_call \<lparr>p = 1, alpha = 1, nclass = 2\<rparr> demo_draws demo_batch (Hard [0, 1]) =
     Inr (demo_batch, Hard [0, 1]) \<and>
   MixUP_call \<lparr>p = 0, alpha = 1, nclass = 2\<rparr> demo_draws demo_batch (Hard [0, 1]) =
     MixUP_steps \<lparr>p = 0, alpha = 1, nclass = 2\<rparr> demo_draws demo_batch (Hard [0, 1]) \<and>
   CutMix_call \<lparr>p = 0, alpha = 1, nclass = 2\<rparr> demo_draws demo_batch (Hard [0, 1]) =
     CutMix_steps \<lparr>p = 0, alpha = 1, nclass = 2\<rparr> demo_draws demo_batch (Hard [0, 1])"
proof -
  have h1: "0 \<le> u_skip demo_draws" and h2: "u_skip demo_draws < 1"
    by (simp_all add: demo_draws_def)
  from skip_probability_boundary [OF h1 h2, of "\<lparr>p = 1/2, alpha = 1, nclass = 2\<rparr>" demo_batch "Hard [0, 1]"]
    h1 h2
  show ?thesis by simp
qed

section \<open>A batch of one sample\<close>

text \<open>
  Claim C9 as stated fails once the operations round: with the rounding of the 32-bit
  floating type, a batch whose one element is the 32-bit number nearest to 5.6 comes back
  with that element one unit in the last place smaller.
\<close>

theorem MixUP_single_sample_counterexample:
  "length (elems one_pixel) = 1 \<and>
   MixUP_steps_fl binary32 \<lparr>p = 0, alpha = 1, nclass = 2\<rparr> one_pixel_draws one_pixel (Hard [1]) =
     Inr (\<lparr>shape = (1, 1, 1, 1), elems = [[[[5872025 / 1048576]]]]\<rparr>, Soft [[0, 1]]) \<and>
   \<lparr>shape = (1, 1, 1, 1), elems = [[[[5872025 / 1048576]]]]\<rparr> \<noteq> one_pixel"
proof -
  have h1: "length (elems one_pixel) = 1"
    by (simp add: one_pixel_def)
  have h2: "promote (nclass \<lparr>p = 0, alpha = 1, nclass = 2\<rparr>) (Hard [1]) = Inr [[0, 1]]"
    by (simp add: promote_def one_hot_def one_hot_row_def upt_rec)
  have r: "binary32 (1 - dir0 one_pixel_draws) = 566231 / 2097152"
    by (simp only: one_pixel_draws_def draws.simps b32_ratio)
  have img: "mix4_fl binary32 (566231 / 2097152) one_pixel (roll4 one_pixel) =
      \<lparr>shape = (1, 1, 1, 1), elems = [[[[5872025 / 1048576]]]]\<rparr>"
    unfolding mix4_fl_single [OF h1]
    by (simp add: map4_def one_pixel_def mix_fl_pixel)
  have lab: "mix2_fl binary32 (566231 / 2097152) [[0, 1]] (roll [[0, 1]]) = [[0, 1]]"
    by (simp add: roll_def mix2_fl_diag mix_fl_label_zero mix_fl_label_one)
  have "MixUP_steps_fl binary32 \<lparr>p = 0, alpha = 1, nclass = 2\<rparr> one_pixel_draws one_pixel (Hard [1]) =
     Inr (\<lparr>shape = (1, 1, 1, 1), elems = [[[[5872025 / 1048576]]]]\<rparr>, Soft [[0, 1]])"
    using h2 by (simp add: MixUP_steps_fl_def Let_def r img lab)
  moreover have "\<lparr>shape = (1, 1, 1, 1), elems = [[[[5872025 / 1048576]]]]\<rparr> \<noteq> one_pixel"
    by (simp add: one_pixel_def)
  ultimately show ?thesis
    using h1 by blast
qed

text \<open>
  Claim C9, amended. On a batch of one sample the cyclic shift is the batch itself, so the
  mixing steps of \<^verbatim>\<open>MixUP\<close> blend every element \<open>x\<close> of the image batch with itself, for every
  ratio drawn: the element returned is \<open>fl (fl (x * fl (1 - r)) + fl (x * r))\<close> for the rounding
  \<open>fl\<close> of the tensor's type and the ratio \<open>r = fl (1 - d)\<close> of the Dirichlet component \<open>d\<close>.
  With exact arithmetic the image batch is returned unchanged. When \<open>r\<close> lies in \<open>[0, 1]\<close>
  and each of the four roundings is within the relative error \<open>eps \<ge> 0\<close>, the element returned
  differs from \<open>x\<close> by at most \<open>((1 + eps) ^ 3 - 1) * \<bar>x\<bar>\<close>.
\<close>

theorem MixUP_single_sample_rounded:
  assumes "length (elems batch) = 1" and "promote (nclass self) tgt = Inr T"
  shows "roll (elems batch) = elems batch \<and>
         MixUP_steps_fl fl self dr batch tgt =
           Inr (map4 (\<lambda>x. fl (fl (x * fl (1 - fl (1 - dir0 dr))) + fl (x * fl (1 - dir0 dr)))) batch,
                Soft (mix2_fl fl (fl (1 - dir0 dr)) T (roll T))) \<and>
         MixUP_steps_fl id self dr batch tgt =
           Inr (batch, Soft (mix2_fl id (1 - dir0 dr) T (roll T))) \<and>
         (0 \<le> eps \<and> 0 \<le> fl (1 - dir0 dr) \<and> fl (1 - dir0 dr) \<le> 1 \<and>
          roundings_ok fl eps (fl (1 - dir0 dr)) x \<longrightarrow>
            \<bar>fl (fl (x * fl (1 - fl (1 - dir0 dr))) + fl (x * fl (1 - dir0 dr))) - x\<bar>
              \<le> ((1 + eps) ^ 3 - 1) * \<bar>x\<bar>)"
proof -
  have shift: "roll (elems batch) = elems batch"
    using assms(1) by (rule roll_single)
  have "MixUP_steps_fl fl self dr batch tgt =
           Inr (map4 (\<lambda>x. mix_fl fl (fl (1 - dir0 dr)) x x) batch,
                Soft (mix2_fl fl (fl (1 - dir0 dr)) T (roll T)))"
    using assms by (simp add: MixUP_steps_fl_def Let_def mix4_fl_single)
  then have rounded: "MixUP_steps_fl fl self dr batch tgt =
           Inr (map4 (\<lambda>x. fl (fl (x * fl (1 - fl (1 - dir0 dr))) + fl (x * fl (1 - dir0 dr)))) batch,
                Soft (mix2_fl fl (fl (1 - dir0 dr)) T (roll T)))"
    by (simp only: mix_fl_def)
  have "MixUP_steps_fl id self dr batch tgt =
           Inr (map4 (\<lambda>x. mix_fl id (id (1 - dir0 dr)) x x) batch,
                Soft (mix2_fl id (id (1 - dir0 dr)) T (roll T)))"
    using assms by (simp add: MixUP_steps_fl_def Let_def mix4_fl_single)
  then have exact: "MixUP_steps_fl id self dr batch tgt =
           Inr (batch, Soft (mix2_fl id (1 - dir0 dr) T (roll T)))"
    by (simp add: map4_exact)
  have tol: "\<bar>fl (fl (x * fl (1 - fl (1 - dir0 dr))) + fl (x * fl (1 - dir0 dr))) - x\<bar>
              \<le> ((1 + eps) ^ 3 - 1) * \<bar>x\<bar>"
    if ok: "0 \<le> eps" "0 \<le> fl (1 - dir0 dr)" "fl (1 - dir0 dr) \<le> 1"
      "roundings_ok fl eps (fl (1 - dir0 dr)) x"
  proof -
    from ok have "\<bar>mix_fl fl (fl (1 - dir0 dr)) x x - x\<bar> \<le> ((1 + eps) ^ 3 - 1) * \<bar>x\<bar>"
      by (intro mix_fl_self_tolerance) (simp_all add: roundings_ok_def)
    then show ?thesis
      by (simp only: mix_fl_def)
  qed
  from shift rounded exact tol show ?thesis
    by blast
qed

theorem MixUP_single_sample_rounded_witness:
  "length (elems one_pixel) = 1 \<and>
   promote (nclass \<lparr>p = 0, alpha = 1, nclass = 2\<rparr>) (Hard [1]) = Inr [[0, 1]] \<and>
   roll (elems one_pixel) = elems one_pixel \<and>
   MixUP_steps_fl id \<lparr>p = 0, alpha = 1, nclass = 2\<rparr> one_pixel_draws one_pixel (Hard [1]) =
     Inr (one_pixel, Soft (mix2_fl id (1 - dir0 one_pixel_draws) [[0, 1]] (roll [[0, 1]]))) \<and>
   binary32 (1 - dir0 one_pixel_draws) = 566231 / 2097152 \<and>
   roundings_ok binary32 (1 / 16777216) (566231 / 2097152) (11744051 / 2097152) \<and>
   \<bar>binary32 (binary32 (11744051 / 2097152 * binary32 (1 - 566231 / 2097152)) +
              binary32 (11744051 / 2097152 * (566231 / 2097152))) - 11744051 / 2097152\<bar>
     \<le> ((1 + 1 / 16777216) ^ 3 - 1) * \<bar>11744051 / 2097152\<bar>"
proof -
  have h1: "length (elems one_pixel) = 1"
    by (simp add: one_pixel_def)
  have h2: "promote (nclass \<lparr>p = 0, alpha = 1, nclass = 2\<rparr>) (Hard [1]) = Inr [[0, 1]]"
    by (simp add: promote_def one_hot_def one_hot_row_def upt_rec)
  have r: "binary32 (1 - dir0 one_pixel_draws) = 566231 / 2097152"
    by (simp only: one_pixel_draws_def draws.simps b32_ratio)
  note ok = roundings_ok_pixel
  have range: "(0::real) \<le> 1 / 16777216" "(0::real) \<le> 566231 / 2097152" "(566231::real) / 2097152 \<le> 1"
    by simp_all
  note t = MixUP_single_sample_rounded [OF h1 h2, of binary32 one_pixel_draws "1 / 16777216"
      "11744051 / 2097152", unfolded r]
  from t have "roll (elems one_pixel) = elems one_pixel"
    by (rule conjunct1)
  moreover from t have "MixUP_steps_fl id \<lparr>p = 0, alpha = 1, nclass = 2\<rparr> one_pixel_draws one_pixel (Hard [1]) =
     Inr (one_pixel, Soft (mix2_fl id (1 - dir0 one_pixel_draws) [[0, 1]] (roll [[0, 1]])))"
    by blast
  moreover from t ok range
  have "\<bar>binary32 (binary32 (11744051 / 2097152 * binary32 (1 - 566231 / 2097152)) +
              binary32 (11744051 / 2097152 * (566231 / 2097152))) - 11744051 / 2097152\<bar>
     \<le> ((1 + 1 / 16777216) ^ 3 - 1) * \<bar>11744051 / 2097152\<bar>"
    by blast
  ultimately show ?thesis
    using h1 h2 r ok by blast
qed

section \<open>Operators built by the assembler\<close>

text \<open>
  Claim C10. Every operator that \<^verbatim>\<open>get_dataloader\<close> constructs has the default skip
  probability \<open>0.5\<close>, so the operator chosen for a batch returns batch and target unchanged
  whenever its draw \<open>u\<close> satisfies \<open>0.5 > u\<close>.
\<close>

theorem assembled_operators_keep_default_skip:
  assumes "k < length (mix_collate a)"
  shows "p (policy_of (mix_collate a ! k)) = 1/2 \<and>
         (u_skip dr < 1/2 \<longrightarrow> collate_fn a k dr batch tgt = Inr (batch, tgt))"
proof -
  have mem: "mix_collate a ! k \<in> set (mix_collate a)"
    using assms by simp
  then have half: "p (policy_of (mix_collate a ! k)) = 1/2"
    by (auto simp: mix_collate_def MixUP_init_def CutMix_init_def policy_init_def split: if_splits)
  have "mix_op_call op dr batch tgt = Inr (batch, tgt)"
    if "p (policy_of op) = 1/2" and "u_skip dr < 1/2" for op
    using that by (cases op) (simp_all add: MixUP_call_def CutMix_call_def)
  with half assms show ?thesis
    by (auto simp: collate_fn_def RandomChoice_call_def)
qed

theorem assembled_operators_keep_default_skip_witness:
  "1 < length (mix_collate demo_args) \<and>
   p (policy_of (mix_collate demo_args ! 1)) = 1/2 \<and>
   u_skip (demo_draws\<lparr>u_skip := 1/4\<rparr>) < 1/2 \<and>
   collate_fn demo_args 1 (demo_draws\<lparr>u_skip := 1/4\<rparr>) demo_batch (Hard [0, 1]) =
     Inr (demo_batch, Hard [0, 1])"
proof -
  have h: "1 < length (mix_collate demo_args)"
    by (simp add: mix_collate_def demo_args_def)
  have u: "u_skip (demo_draws\<lparr>u_skip := 1/4\<rparr>) < 1/2"
    by simp
  from assembled_operators_keep_default_skip [OF h, of "demo_draws\<lparr>u_skip := 1/4\<rparr>" demo_batch "Hard [0, 1]"]
    h u
  show ?thesis by simp
qed

end
